theory Spec2Isabelle
  imports Main
begin

section \<open>The wire session layer of trezor-core\<close>

text \<open>
  A shallow embedding of \<^verbatim>\<open>src/trezor/wire/__init__.py\<close> and
  \<^verbatim>\<open>src/apps/management/change_pin.py\<close>. Coroutines become functions from a world
  to a result; an exception is a result of its own, and so is a coroutine that stays
  suspended for ever.
\<close>

subsection \<open>Values, messages, readers, exceptions\<close>

text \<open>The members of \<^verbatim>\<open>FailureType\<close> and \<^verbatim>\<open>ButtonRequestType\<close> the two files name.\<close>

datatype FailureType =
    UnexpectedMessage
  | ActionCancelled
  | PinInvalid
  | FirmwareError
  | OtherFailure int

datatype ButtonRequestType =
    Other
  | OtherButtonRequest int

text \<open>The protobuf messages the two files build or receive; any other message keeps its
  wire type and its encoded fields.\<close>

datatype message =
    Failure FailureType string
  | Success string
  | ButtonRequest ButtonRequestType
  | ButtonAck
  | ChangePin bool
  | OtherMessage int "nat list"

text \<open>
  What a handler may return: Python is untyped there, and \<^verbatim>\<open>if res:\<close>, \<^verbatim>\<open>if newpin:\<close>
  test truthiness. A message object defines neither \<^verbatim>\<open>__bool__\<close> nor \<^verbatim>\<open>__len__\<close>, so it
  is true.
\<close>

datatype pyval =
    VNone
  | VBool bool
  | VInt int
  | VStr string
  | VMsg message

fun truthy :: "pyval \<Rightarrow> bool" where
  "truthy VNone = False"
| "truthy (VBool b) = b"
| "truthy (VInt n) = (n \<noteq> 0)"
| "truthy (VStr s) = (s \<noteq> [])"
| "truthy (VMsg m) = True"

text \<open>
  An opened \<^verbatim>\<open>codec_v1.Reader\<close>: the type tag and the declared payload length of its frame
  (\<^verbatim>\<open>reader.type\<close>, \<^verbatim>\<open>reader.size\<close>), and what \<^verbatim>\<open>protobuf.load_message\<close> makes of
  the payload under \<^verbatim>\<open>messages.get_type(reader.type)\<close>, \<open>None\<close> when decoding fails.
\<close>

record reader =
  rtype :: int
  rsize :: nat
  rbody :: "message option"

text \<open>
  The exception classes the \<^verbatim>\<open>except\<close> clauses of the two files tell apart.
  \<open>UnexpectedMessageError\<close>, \<open>Error\<close> (with its subclasses, each a code and a message) and
  \<open>PinCancelled\<close> are subclasses of \<^verbatim>\<open>Exception\<close>, as is every \<open>OtherException\<close>;
  \<open>BaseExceptionOnly\<close> stands for the interpreter's signals outside \<^verbatim>\<open>Exception\<close>
  (\<^verbatim>\<open>GeneratorExit\<close> when the scheduler closes a task), which \<^verbatim>\<open>except Exception\<close> lets
  through.
\<close>

datatype exc =
    UnexpectedMessageError reader
  | Error FailureType string
  | PinCancelled
  | OtherException string
  | BaseExceptionOnly string


text \<open>\<^verbatim>\<open>wire.PinInvalid(message)\<close> and \<^verbatim>\<open>wire.ActionCancelled(message)\<close> are subclasses of
  \<^verbatim>\<open>Error\<close> that fix the code.\<close>

definition wire_PinInvalid :: "string \<Rightarrow> exc" where
  "wire_PinInvalid m = Error PinInvalid m"

definition wire_ActionCancelled :: "string \<Rightarrow> exc" where
  "wire_ActionCancelled m = Error ActionCancelled m"

subsection \<open>The workflow registry\<close>

text \<open>
  \<^verbatim>\<open>register\<close>: \<^verbatim>\<open>mtype\<close> is an integer or a subclass of
  \<^verbatim>\<open>protobuf.MessageType\<close>, given here by its \<^verbatim>\<open>MESSAGE_WIRE_TYPE\<close>. The global
  dictionary \<^verbatim>\<open>workflow_handlers\<close> is passed and returned; the first component of the
  result is the exception raised, if any.
\<close>

datatype mtype =
    WireType int
  | MessageClass int

type_synonym ('h, 'a) registry = "int \<rightharpoonup> ('h \<times> 'a)"

definition register ::
  "mtype \<Rightarrow> 'h \<Rightarrow> 'a \<Rightarrow> ('h, 'a) registry \<Rightarrow> exc option \<times> ('h, 'a) registry" where
  "register mt handler args workflow_handlers =
     (let t = (case mt of MessageClass wire_type \<Rightarrow> wire_type | WireType n \<Rightarrow> n)
      in (case workflow_handlers t of
            Some entry \<Rightarrow> (Some (OtherException ''KeyError''), workflow_handlers)
          | None \<Rightarrow> (None, workflow_handlers(t \<mapsto> (handler, args)))))"

subsection \<open>The world: the interface, the user, the storage, and what has happened\<close>

text \<open>
  What a collaborator outside the two files will do when it is next asked: give a
  value, raise, or never come back.
\<close>

datatype 'a answer =
    Answers 'a
  | Throws exc
  | Silent

text \<open>What the interface delivers to the next \<^verbatim>\<open>aopen\<close>: a header, opened as a reader, or
  a malformed one.\<close>

datatype arrival =
    Header reader
  | Malformed

type_synonym keychain = nat

datatype event =
    EvAopen reader
  | EvReadinto nat
  | EvLoad int
  | EvWrite message
  | EvUnimportBegin
  | EvOnStart
  | EvOnClose
  | EvUnimportEnd
  | EvGetKeychain "int list"
  | EvKeychainDel keychain
  | EvRequireConfirm "string list"
  | EvRequestPin "string option"
  | EvPinMismatch
  | EvCheckPin int
  | EvChangePin int int

record world =
  incoming :: "arrival list"
  chunk_size :: nat
  confirms :: "unit answer list"
  pins :: "string answer list"
  keychains :: "keychain answer list"
  has_pin_flag :: bool
  check_pin_oracle :: "int \<Rightarrow> bool"
  change_pin_oracle :: "int \<Rightarrow> int \<Rightarrow> bool"
  trace :: "event list"

definition emit :: "event \<Rightarrow> world \<Rightarrow> world" where
  "emit ev w = w\<lparr>trace := trace w @ [ev]\<rparr>"

text \<open>
  The outcome of awaiting a coroutine: it returns, it raises, or it stays suspended and
  nothing after it runs.
\<close>

datatype 'a result =
    Return 'a world
  | Raise exc world
  | Blocked world

type_synonym 'a io = "world \<Rightarrow> 'a result"

definition ret :: "'a \<Rightarrow> 'a io" where
  "ret v w = Return v w"

definition raise :: "exc \<Rightarrow> 'a io" where
  "raise e w = Raise e w"

definition bind :: "'a io \<Rightarrow> ('a \<Rightarrow> 'b io) \<Rightarrow> 'b io" where
  "bind m f w =
     (case m w of
        Return v w' \<Rightarrow> f v w'
      | Raise e w' \<Rightarrow> Raise e w'
      | Blocked w' \<Rightarrow> Blocked w')"

text \<open>\<^verbatim>\<open>try: m  except ...: h\<close>, the handler choosing by the exception's class; a handler
  that does not match re-raises.\<close>

definition try_except :: "'a io \<Rightarrow> (exc \<Rightarrow> 'a io) \<Rightarrow> 'a io" where
  "try_except m h w =
     (case m w of
        Return v w' \<Rightarrow> Return v w'
      | Raise e w' \<Rightarrow> h e w'
      | Blocked w' \<Rightarrow> Blocked w')"

text \<open>\<^verbatim>\<open>try: m  finally: c\<close>: the clean-up runs when the body returns and when it raises,
  and what it raises itself replaces the body's outcome.\<close>

definition try_finally :: "'a io \<Rightarrow> unit io \<Rightarrow> 'a io" where
  "try_finally m c w =
     (case m w of
        Return v w' \<Rightarrow>
          (case c w' of
             Return u w'' \<Rightarrow> Return v w''
           | Raise e w'' \<Rightarrow> Raise e w''
           | Blocked w'' \<Rightarrow> Blocked w'')
      | Raise e w' \<Rightarrow>
          (case c w' of
             Return u w'' \<Rightarrow> Raise e w''
           | Raise e' w'' \<Rightarrow> Raise e' w''
           | Blocked w'' \<Rightarrow> Blocked w'')
      | Blocked w' \<Rightarrow> Blocked w')"

subsection \<open>The codec and the protobuf layer, as the session layer uses them\<close>

text \<open>
  Modelled from the spec: \<^verbatim>\<open>codec_v1.Reader.aopen\<close>, which is not in the two files. It
  suspends until a header is available and yields the bound reader, or fails with a
  framing error on a malformed header; with nothing more to come it stays suspended.
\<close>

definition aopen :: "reader io" where
  "aopen w =
     (case incoming w of
        [] \<Rightarrow> Blocked w
      | Header r # rest \<Rightarrow> Return r (emit (EvAopen r) (w\<lparr>incoming := rest\<rparr>))
      | Malformed # rest \<Rightarrow> Raise (OtherException ''framing error'') (w\<lparr>incoming := rest\<rparr>))"

text \<open>
  Modelled from the spec: \<^verbatim>\<open>codec_v1.Reader.areadinto\<close>, which reads the next chunk into
  the caller's buffer. One call moves at most \<open>chunk_size\<close> bytes, at most the buffer's
  length and at most what remains of the frame; an interface that delivers nothing
  leaves the call suspended.
\<close>

definition areadinto :: "reader \<Rightarrow> nat \<Rightarrow> reader io" where
  "areadinto r buflen w =
     (if chunk_size w = 0 then Blocked w
      else let n = min (min buflen (rsize r)) (chunk_size w)
           in Return (r\<lparr>rsize := rsize r - n\<rparr>) (emit (EvReadinto n) w))"

text \<open>
  Modelled from the spec: \<^verbatim>\<open>protobuf.load_message(reader, messages.get_type(reader.type))\<close>,
  the decoding of a typed message from a reader given its type tag.
\<close>

definition load_message :: "reader \<Rightarrow> message io" where
  "load_message r w =
     (case rbody r of
        None \<Rightarrow> Raise (OtherException ''decoding failed'') w
      | Some m \<Rightarrow> Return m (emit (EvLoad (rtype r)) w))"

subsection \<open>Context\<close>

record Context =
  iface :: nat
  sid :: int

text \<open>\<^verbatim>\<open>Context.write\<close>: the header and the fields go out through a
  \<^verbatim>\<open>codec_v1.Writer\<close>, which is closed. The writer is outside the two files and is
  taken to complete; the message written is recorded.\<close>

definition Context_write :: "Context \<Rightarrow> message \<Rightarrow> unit io" where
  "Context_write ctx msg w = Return () (emit (EvWrite msg) w)"

definition Context_read :: "Context \<Rightarrow> int list \<Rightarrow> message io" where
  "Context_read ctx types =
     bind aopen (\<lambda>reader.
       if rtype reader \<notin> set types then raise (UnexpectedMessageError reader)
       else load_message reader)"

definition Context_call :: "Context \<Rightarrow> message \<Rightarrow> int list \<Rightarrow> message io" where
  "Context_call ctx msg types = bind (Context_write ctx msg) (\<lambda>u. Context_read ctx types)"

text \<open>
  Modelled from the spec: \<^verbatim>\<open>loop.spawn\<close>, a race that gives the outcome of whichever
  child finishes first. A task that returns or raises has finished before the next
  frame arrives; a task still suspended leaves the outcome to the first child.
\<close>

definition loop_spawn :: "pyval io \<Rightarrow> pyval io \<Rightarrow> pyval io" where
  "loop_spawn first task w =
     (case task w of
        Blocked w' \<Rightarrow> first w'
      | finished \<Rightarrow> finished)"

definition Context_wait :: "Context \<Rightarrow> pyval io \<Rightarrow> pyval io" where
  "Context_wait ctx task =
     loop_spawn (bind (Context_read ctx []) (\<lambda>m. ret (VMsg m))) task"

subsection \<open>Collaborators of the session handler and of the adapters\<close>

text \<open>Modelled from the spec: \<^verbatim>\<open>utils.unimport_begin\<close>, \<^verbatim>\<open>utils.unimport_end\<close>,
  \<^verbatim>\<open>workflow.onstart\<close> and \<^verbatim>\<open>workflow.onclose\<close>, the housekeeping around a handler,
  which is outside the two files: each call is recorded.\<close>

definition unimport_begin :: "unit io" where
  "unimport_begin w = Return () (emit EvUnimportBegin w)"

definition unimport_end :: "unit io" where
  "unimport_end w = Return () (emit EvUnimportEnd w)"

definition onstart :: "unit io" where
  "onstart w = Return () (emit EvOnStart w)"

definition onclose :: "unit io" where
  "onclose w = Return () (emit EvOnClose w)"

text \<open>
  Modelled from the spec: \<^verbatim>\<open>seed.get_keychain\<close>, the acquisition of a credential handle
  for a namespace from an external store; it may talk to the host and the user, so it
  may raise or stay suspended.
\<close>

definition get_keychain :: "Context \<Rightarrow> int list \<Rightarrow> keychain io" where
  "get_keychain ctx namespace w =
     (case keychains w of
        [] \<Rightarrow> Blocked (emit (EvGetKeychain namespace) w)
      | Answers k # rest \<Rightarrow> Return k (emit (EvGetKeychain namespace) (w\<lparr>keychains := rest\<rparr>))
      | Throws e # rest \<Rightarrow> Raise e (emit (EvGetKeychain namespace) (w\<lparr>keychains := rest\<rparr>))
      | Silent # rest \<Rightarrow> Blocked (emit (EvGetKeychain namespace) (w\<lparr>keychains := rest\<rparr>)))"

text \<open>Modelled from the spec: the release of the credential handle,
  \<^verbatim>\<open>keychain.__del__()\<close>.\<close>

definition keychain_del :: "keychain \<Rightarrow> unit io" where
  "keychain_del k w = Return () (emit (EvKeychainDel k) w)"

subsection \<open>The adapters and the generic workflow\<close>

definition protobuf_workflow ::
  "Context \<Rightarrow> reader \<Rightarrow> (Context \<Rightarrow> message \<Rightarrow> 'a \<Rightarrow> pyval io) \<Rightarrow> 'a \<Rightarrow> pyval io" where
  "protobuf_workflow ctx reader handler args =
     bind (load_message reader) (\<lambda>req.
     bind (try_except (handler ctx req args)
            (\<lambda>e. case e of
               UnexpectedMessageError r \<Rightarrow> raise e
             | Error code msg \<Rightarrow>
                 bind (Context_write ctx (Failure code msg)) (\<lambda>u. raise e)
             | PinCancelled \<Rightarrow>
                 bind (Context_write ctx (Failure FirmwareError ''Firmware error'')) (\<lambda>u. raise e)
             | OtherException s \<Rightarrow>
                 bind (Context_write ctx (Failure FirmwareError ''Firmware error'')) (\<lambda>u. raise e)
             | BaseExceptionOnly s \<Rightarrow> raise e))
       (\<lambda>res.
          if truthy res then
            (case res of
               VMsg m \<Rightarrow> bind (Context_write ctx m) (\<lambda>u. ret VNone)
             | other \<Rightarrow> raise (OtherException ''AttributeError''))
          else ret VNone))"

text \<open>The bound arguments of a handler behind \<^verbatim>\<open>keychain_workflow\<close>; the keychain is
  appended to them.\<close>

datatype arg =
    ArgStr string
  | ArgInt int
  | ArgKeychain keychain

definition keychain_workflow ::
  "Context \<Rightarrow> message \<Rightarrow> int list \<Rightarrow> (Context \<Rightarrow> message \<Rightarrow> arg list \<Rightarrow> pyval io)
     \<Rightarrow> arg list \<Rightarrow> pyval io" where
  "keychain_workflow ctx req namespace handler args =
     bind (get_keychain ctx namespace) (\<lambda>keychain.
       try_finally (handler ctx req (args @ [ArgKeychain keychain])) (keychain_del keychain))"

text \<open>The loop of \<^verbatim>\<open>unexpected_msg\<close>: while \<^verbatim>\<open>reader.size > 0\<close>, read into a buffer of
  that size.\<close>

function unexpected_msg_loop :: "reader \<Rightarrow> reader io" where
  "unexpected_msg_loop reader w =
     (if rsize reader > 0 then
        (case areadinto reader (rsize reader) w of
           Return reader' w' \<Rightarrow> unexpected_msg_loop reader' w'
         | Raise e w' \<Rightarrow> Raise e w'
         | Blocked w' \<Rightarrow> Blocked w')
      else Return reader w)"
  by pat_completeness auto
termination
  by (relation "measure (\<lambda>(reader, w). rsize reader)")
     (auto simp: areadinto_def Let_def split: if_splits)

definition unexpected_msg :: "Context \<Rightarrow> reader \<Rightarrow> pyval io" where
  "unexpected_msg ctx reader =
     bind (unexpected_msg_loop reader) (\<lambda>r.
     bind (Context_write ctx (Failure UnexpectedMessage ''Unexpected message'')) (\<lambda>u.
       ret VNone))"

subsection \<open>The session handler\<close>

text \<open>
  One pass through the body of \<^verbatim>\<open>while True\<close>, from the reader carried over (if any)
  to the reader carried into the next pass. The loop goes on (\<open>Continue\<close>), is left by
  an exception no clause catches (\<open>Exited\<close>), or stays suspended inside the pass.
\<close>

datatype loop_state =
    Continue "reader option" world
  | Exited exc world
  | Suspended world

type_synonym 'a handler = "Context \<Rightarrow> reader \<Rightarrow> 'a \<Rightarrow> pyval io"

text \<open>The coroutine \<^verbatim>\<open>handler(ctx, reader, *args)\<close> of the handler found under
  \<^verbatim>\<open>reader.type\<close>, \<^verbatim>\<open>unexpected_msg(ctx, reader)\<close> on \<open>KeyError\<close>.\<close>

definition find_handler ::
  "('a handler, 'a) registry \<Rightarrow> Context \<Rightarrow> reader \<Rightarrow> pyval io" where
  "find_handler workflow_handlers ctx reader =
     (case workflow_handlers (rtype reader) of
        Some (handler, args) \<Rightarrow> handler ctx reader args
      | None \<Rightarrow> unexpected_msg ctx reader)"

text \<open>The \<^verbatim>\<open>except\<close> clauses of the loop body and the statement after them, in the
  order of the source: what the next pass starts with.\<close>

definition session_handler_except :: "pyval result \<Rightarrow> loop_state" where
  "session_handler_except outcome =
     (case outcome of
        Return v w' \<Rightarrow> Continue None w'
      | Raise e w' \<Rightarrow>
          (case e of
             UnexpectedMessageError r \<Rightarrow> Continue (Some r) w'
           | Error code msg \<Rightarrow> Continue None w'
           | PinCancelled \<Rightarrow> Continue None w'
           | OtherException s \<Rightarrow> Continue None w'
           | BaseExceptionOnly s \<Rightarrow> Exited e w')
      | Blocked w' \<Rightarrow> Suspended w')"

definition session_handler_body ::
  "('a handler, 'a) registry \<Rightarrow> Context \<Rightarrow> reader option \<Rightarrow> world \<Rightarrow> loop_state" where
  "session_handler_body workflow_handlers ctx reader w =
     session_handler_except
       (bind (case reader of None \<Rightarrow> aopen | Some r \<Rightarrow> ret r) (\<lambda>reader.
          bind unimport_begin (\<lambda>m.
            try_finally (bind onstart (\<lambda>u. find_handler workflow_handlers ctx reader))
              (bind onclose (\<lambda>u. unimport_end)))) w)"

text \<open>The loop itself never returns; \<open>session_loop n\<close> is its state after \<open>n\<close> passes,
  or the state in which it was left or stayed suspended before that.\<close>

fun session_loop ::
  "nat \<Rightarrow> ('a handler, 'a) registry \<Rightarrow> Context \<Rightarrow> reader option \<Rightarrow> world \<Rightarrow> loop_state" where
  "session_loop 0 workflow_handlers ctx reader w = Continue reader w"
| "session_loop (Suc n) workflow_handlers ctx reader w =
     (case session_handler_body workflow_handlers ctx reader w of
        Continue reader' w' \<Rightarrow> session_loop n workflow_handlers ctx reader' w'
      | Exited e w' \<Rightarrow> Exited e w'
      | Suspended w' \<Rightarrow> Suspended w')"

definition session_handler ::
  "nat \<Rightarrow> ('a handler, 'a) registry \<Rightarrow> nat \<Rightarrow> int \<Rightarrow> world \<Rightarrow> loop_state" where
  "session_handler n workflow_handlers iface_num sid_num w =
     session_loop n workflow_handlers \<lparr>iface = iface_num, sid = sid_num\<rparr> None w"

subsection \<open>Collaborators of the PIN workflow\<close>

text \<open>
  \<^verbatim>\<open>MessageType.ButtonAck\<close> and \<^verbatim>\<open>trezor.pin.pin_to_int\<close> are declared outside the two
  files: a wire type and a function from the PIN entered to the integer the storage
  takes. They are parameters of the workflow.
\<close>

record env =
  MessageType_ButtonAck :: int
  pin_to_int :: "pyval \<Rightarrow> int"

text \<open>
  Modelled from the spec: \<^verbatim>\<open>config.has_pin\<close>, \<^verbatim>\<open>config.check_pin\<close> and
  \<^verbatim>\<open>config.change_pin\<close>, the secure credential store. Its internals are out of scope:
  the world says whether a PIN is stored and how the store answers a check and a
  change, and each check and each write is recorded.
\<close>

definition config_has_pin :: "bool io" where
  "config_has_pin w = Return (has_pin_flag w) w"

definition config_check_pin :: "int \<Rightarrow> bool io" where
  "config_check_pin pin w = Return (check_pin_oracle w pin) (emit (EvCheckPin pin) w)"

definition config_change_pin :: "int \<Rightarrow> int \<Rightarrow> bool io" where
  "config_change_pin oldpin newpin w =
     Return (change_pin_oracle w oldpin newpin) (emit (EvChangePin oldpin newpin) w)"

text \<open>
  Modelled from the spec: \<^verbatim>\<open>apps.common.confirm.require_confirm\<close>, the confirmation
  dialog: it returns when the user confirms, and otherwise raises or stays suspended.
  The text shown is its title and its lines.
\<close>

definition require_confirm :: "Context \<Rightarrow> string list \<Rightarrow> unit io" where
  "require_confirm ctx text w =
     (case confirms w of
        [] \<Rightarrow> Blocked (emit (EvRequireConfirm text) w)
      | Answers u # rest \<Rightarrow> Return () (emit (EvRequireConfirm text) (w\<lparr>confirms := rest\<rparr>))
      | Throws e # rest \<Rightarrow> Raise e (emit (EvRequireConfirm text) (w\<lparr>confirms := rest\<rparr>))
      | Silent # rest \<Rightarrow> Blocked (emit (EvRequireConfirm text) (w\<lparr>confirms := rest\<rparr>)))"

text \<open>
  Modelled from the spec: \<^verbatim>\<open>apps.common.request_pin.request_pin\<close>, the PIN dialog, a
  task that gives the string the user entered, raises (\<open>PinCancelled\<close> when the user
  cancels), or is still waiting for the user.
\<close>

definition request_pin :: "string option \<Rightarrow> pyval io" where
  "request_pin label w =
     (case pins w of
        [] \<Rightarrow> Blocked (emit (EvRequestPin label) w)
      | Answers pin # rest \<Rightarrow> Return (VStr pin) (emit (EvRequestPin label) (w\<lparr>pins := rest\<rparr>))
      | Throws e # rest \<Rightarrow> Raise e (emit (EvRequestPin label) (w\<lparr>pins := rest\<rparr>))
      | Silent # rest \<Rightarrow> Blocked (emit (EvRequestPin label) (w\<lparr>pins := rest\<rparr>)))"

subsection \<open>The PIN workflow\<close>

text \<open>\<^verbatim>\<open>pin_mismatch\<close> renders its text and sleeps three seconds.\<close>

definition pin_mismatch :: "unit io" where
  "pin_mismatch w = Return () (emit EvPinMismatch w)"

text \<open>\<^verbatim>\<open>request_pin_ack\<close>; the label is the first of the arguments it passes on to
  \<^verbatim>\<open>request_pin\<close>, and \<^verbatim>\<open>change_pin\<close> passes no other.\<close>

definition request_pin_ack :: "env \<Rightarrow> Context \<Rightarrow> string option \<Rightarrow> pyval io" where
  "request_pin_ack E ctx label =
     try_except
       (bind (Context_call ctx (ButtonRequest Other) [MessageType_ButtonAck E]) (\<lambda>ack.
          Context_wait ctx (request_pin label)))
       (\<lambda>e. case e of
          PinCancelled \<Rightarrow> raise (wire_ActionCancelled ''Cancelled'')
        | other \<Rightarrow> raise e)"

function request_pin_confirm :: "env \<Rightarrow> Context \<Rightarrow> pyval io" where
  "request_pin_confirm E ctx w =
     (case request_pin_ack E ctx (Some ''Enter new PIN'') w of
        Return pin1 w1 \<Rightarrow>
          (case request_pin_ack E ctx (Some ''Re-enter new PIN'') w1 of
             Return pin2 w2 \<Rightarrow>
               if pin1 = pin2 then Return pin1 w2
               else (case pin_mismatch w2 of
                       Return u w3 \<Rightarrow> request_pin_confirm E ctx w3
                     | Raise e w3 \<Rightarrow> Raise e w3
                     | Blocked w3 \<Rightarrow> Blocked w3)
           | Raise e w2 \<Rightarrow> Raise e w2
           | Blocked w2 \<Rightarrow> Blocked w2)
      | Raise e w1 \<Rightarrow> Raise e w1
      | Blocked w1 \<Rightarrow> Blocked w1)"
  by pat_completeness auto
termination
proof (relation "measure (\<lambda>(E, ctx, w). length (incoming w))")
  show "wf (measure (\<lambda>(E, ctx, w). length (incoming w)))"
    by simp
next
  fix E ctx w pin1 w1 pin2 w2 u w3
  assume first: "request_pin_ack E ctx (Some ''Enter new PIN'') w = Return pin1 w1"
    and second: "request_pin_ack E ctx (Some ''Re-enter new PIN'') w1 = Return pin2 w2"
    and third: "pin_mismatch w2 = Return u w3"
  have consumes: "length (incoming b) < length (incoming a)"
    if "request_pin_ack E ctx label a = Return v b" for label a v b
    using that
    by (auto simp: request_pin_ack_def try_except_def bind_def Context_call_def
        Context_write_def Context_read_def Context_wait_def loop_spawn_def request_pin_def
        aopen_def load_message_def emit_def raise_def ret_def
        split: result.splits list.splits arrival.splits answer.splits if_splits
          option.splits exc.splits)
  have "incoming w3 = incoming w2"
    using third by (auto simp: pin_mismatch_def emit_def)
  with consumes [OF first] consumes [OF second]
  show "((E, ctx, w3), (E, ctx, w)) \<in> measure (\<lambda>(E, ctx, w). length (incoming w))"
    by simp
qed

text \<open>\<^verbatim>\<open>msg.remove\<close> of the \<^verbatim>\<open>ChangePin\<close> request the workflow is registered for.\<close>

fun remove :: "message \<Rightarrow> bool" where
  "remove (ChangePin r) = r"
| "remove m = False"

definition require_confirm_change_pin :: "Context \<Rightarrow> message \<Rightarrow> unit io" where
  "require_confirm_change_pin ctx msg =
     bind config_has_pin (\<lambda>has_pin.
       if remove msg \<and> has_pin then
         require_confirm ctx [''Remove PIN'', ''Do you really want to'', ''remove current PIN?'']
       else if \<not> remove msg \<and> has_pin then
         require_confirm ctx [''Remove PIN'', ''Do you really want to'', ''change current PIN?'']
       else if \<not> remove msg \<and> \<not> has_pin then
         require_confirm ctx [''Remove PIN'', ''Do you really want to'', ''set new PIN?'']
       else ret ())"

definition change_pin :: "env \<Rightarrow> Context \<Rightarrow> message \<Rightarrow> pyval io" where
  "change_pin E ctx msg =
     bind (require_confirm_change_pin ctx msg) (\<lambda>u.
     bind config_has_pin (\<lambda>has_pin.
     bind (if has_pin then
             bind (request_pin_ack E ctx None) (\<lambda>curpin.
             bind (config_check_pin (pin_to_int E curpin)) (\<lambda>ok.
               if \<not> ok then raise (wire_PinInvalid ''PIN invalid'') else ret curpin))
           else ret (VStr [])) (\<lambda>curpin.
     bind (if \<not> remove msg then request_pin_confirm E ctx else ret (VStr [])) (\<lambda>newpin.
     bind (config_change_pin (pin_to_int E curpin) (pin_to_int E newpin)) (\<lambda>ok.
       if \<not> ok then raise (wire_PinInvalid ''PIN invalid'')
       else if truthy newpin then ret (VMsg (Success ''PIN changed''))
       else ret (VMsg (Success ''PIN removed'')))))))"

subsection \<open>Auxiliary notions for the statements\<close>

text \<open>The world in which the handler found for a frame starts to run, after
  \<^verbatim>\<open>unimport_begin\<close> and \<^verbatim>\<open>workflow.onstart\<close>, and the world the \<^verbatim>\<open>finally\<close> clause
  leaves, after \<^verbatim>\<open>workflow.onclose\<close> and \<^verbatim>\<open>unimport_end\<close>.\<close>

definition workflow_started :: "world \<Rightarrow> world" where
  "workflow_started w = emit EvOnStart (emit EvUnimportBegin w)"

definition workflow_closed :: "world \<Rightarrow> world" where
  "workflow_closed w = emit EvUnimportEnd (emit EvOnClose w)"

text \<open>The sizes of the reads that empty a reader of \<open>n\<close> remaining bytes when one read
  moves at most \<open>c\<close> bytes.\<close>

function read_sizes :: "nat \<Rightarrow> nat \<Rightarrow> nat list" where
  "read_sizes c n = (if n = 0 \<or> c = 0 then [] else min n c # read_sizes c (n - min n c))"
  by pat_completeness auto
termination
  by (relation "measure (\<lambda>(c, n). n)") auto

text \<open>A world in which nothing is pending and nothing has happened, for examples.\<close>

definition idle :: world where
  "idle = \<lparr>incoming = [], chunk_size = 64, confirms = [], pins = [], keychains = [],
            has_pin_flag = False, check_pin_oracle = (\<lambda>pin. True),
            change_pin_oracle = (\<lambda>oldpin newpin. True), trace = []\<rparr>"

text \<open>The world an outcome leaves, and the writes to the credential store among some
  events.\<close>

fun world_of :: "'a result \<Rightarrow> world" where
  "world_of (Return v w) = w"
| "world_of (Raise e w) = w"
| "world_of (Blocked w) = w"

fun is_store_write :: "event \<Rightarrow> bool" where
  "is_store_write (EvChangePin oldpin newpin) = True"
| "is_store_write ev = False"

definition store_writes :: "event list \<Rightarrow> event list" where
  "store_writes evs = filter is_store_write evs"

text \<open>What one answered \<^verbatim>\<open>request_pin_ack\<close> leaves in the trace when the host acknowledges
  with the frame \<open>ack\<close>, and what one round of \<^verbatim>\<open>request_pin_confirm\<close> leaves.\<close>

definition prompt_events :: "reader \<Rightarrow> string \<Rightarrow> event list" where
  "prompt_events ack label =
     [EvWrite (ButtonRequest Other), EvAopen ack, EvLoad (rtype ack), EvRequestPin (Some label)]"

definition round_events :: "reader \<Rightarrow> event list" where
  "round_events ack = prompt_events ack ''Enter new PIN'' @ prompt_events ack ''Re-enter new PIN''"

text \<open>The text of the confirmation that precedes the setting of a new PIN.\<close>

definition set_new_pin_text :: "string list" where
  "set_new_pin_text = [''Remove PIN'', ''Do you really want to'', ''set new PIN?'']"

text \<open>An instance of the parameters of the PIN workflow, for examples: the PIN gives the
  decimal number written as a 1 followed by the PIN's digits.\<close>

definition example_env :: env where
  "example_env =
     \<lparr>MessageType_ButtonAck = 27,
      pin_to_int = (\<lambda>pin. case pin of
         VStr s \<Rightarrow> foldl (\<lambda>n c. 10 * n + (of_char c - 48)) 1 s
       | other \<Rightarrow> 0)\<rparr>"

section \<open>Properties\<close>

subsection \<open>Facts about the building blocks\<close>

declare unexpected_msg_loop.simps [simp del]
declare request_pin_confirm.simps [simp del]
declare read_sizes.simps [simp del]

lemma session_handler_body_carried:
  "session_handler_body wh ctx (Some r) w =
     (case find_handler wh ctx r (workflow_started w) of
        Return v w1 \<Rightarrow> Continue None (workflow_closed w1)
      | Raise e w1 \<Rightarrow> session_handler_except (Raise e (workflow_closed w1))
      | Blocked w1 \<Rightarrow> Suspended w1)"
  by (simp add: session_handler_body_def session_handler_except_def bind_def ret_def
      unimport_begin_def try_finally_def onstart_def onclose_def unimport_end_def
      workflow_started_def workflow_closed_def split: result.splits)



lemma read_header:
  "incoming w = Header r # rest \<Longrightarrow>
   Context_read ctx types w =
     (if rtype r \<notin> set types
      then Raise (UnexpectedMessageError r) (emit (EvAopen r) (w\<lparr>incoming := rest\<rparr>))
      else load_message r (emit (EvAopen r) (w\<lparr>incoming := rest\<rparr>)))"
  by (simp add: Context_read_def bind_def aopen_def raise_def)


lemma read_sizes_positive: "0 \<notin> set (read_sizes c n)"
proof (induction c n rule: read_sizes.induct)
  case (1 c n)
  then show ?case
    by (subst read_sizes.simps) auto
qed




subsection \<open>The registry\<close>

text \<open>
  C6: registering a tag that is already in the table raises \<open>KeyError\<close> and leaves the
  table as it was; registering a tag that is not yet in it succeeds, stores the handler
  and its arguments under that tag, and leaves the entry of every other tag as it was,
  so that a later registration of a distinct free tag succeeds as well.
\<close>

theorem register_twice_fails:
  "(workflow_handlers t \<noteq> None \<longrightarrow>
      register (WireType t) handler args workflow_handlers
        = (Some (OtherException ''KeyError''), workflow_handlers))
   \<and> (workflow_handlers t = None \<longrightarrow>
      fst (register (WireType t) handler args workflow_handlers) = None
      \<and> snd (register (WireType t) handler args workflow_handlers) t = Some (handler, args)
      \<and> (\<forall>t'. t' \<noteq> t \<longrightarrow>
            snd (register (WireType t) handler args workflow_handlers) t' = workflow_handlers t')
      \<and> (\<forall>t' handler' args'. t' \<noteq> t \<and> workflow_handlers t' = None \<longrightarrow>
            fst (register (WireType t') handler' args'
                  (snd (register (WireType t) handler args workflow_handlers))) = None)
      \<and> (\<forall>handler' args'.
            register (WireType t) handler' args'
              (snd (register (WireType t) handler args workflow_handlers))
            = (Some (OtherException ''KeyError''),
               snd (register (WireType t) handler args workflow_handlers))))"
  by (auto simp: register_def split: option.splits)

theorem register_twice_fails_witness:
  "register (WireType 4) (1::nat) ''a'' (Map.empty(4 \<mapsto> (0, ''b'')))
     = (Some (OtherException ''KeyError''), Map.empty(4 \<mapsto> (0, ''b'')))
   \<and> fst (register (WireType 5) (1::nat) ''a'' (Map.empty(4 \<mapsto> (0, ''b'')))) = None
   \<and> snd (register (WireType 5) (1::nat) ''a'' (Map.empty(4 \<mapsto> (0, ''b'')))) 5 = Some (1, ''a'')
   \<and> snd (register (WireType 5) (1::nat) ''a'' (Map.empty(4 \<mapsto> (0, ''b'')))) 4 = Some (0, ''b'')
   \<and> fst (register (WireType 6) (2::nat) ''c''
            (snd (register (WireType 5) (1::nat) ''a'' (Map.empty(4 \<mapsto> (0, ''b'')))))) = None"
  using register_twice_fails [of "Map.empty(4 \<mapsto> (0::nat, ''b''))" 4 1 "''a''"]
    register_twice_fails [of "Map.empty(4 \<mapsto> (0::nat, ''b''))" 5 1 "''a''"]
  by simp

text \<open>
  C10: given a message class, \<^verbatim>\<open>register\<close> inserts under the class's
  \<^verbatim>\<open>MESSAGE_WIRE_TYPE\<close>, exactly as it does given that integer: after a successful
  registration of the class, looking the integer up finds the handler registered
  through the class, and registering the integer itself raises \<open>KeyError\<close> and changes
  nothing.
\<close>

theorem register_class_by_wire_type:
  "workflow_handlers wire_type = None \<Longrightarrow>
     fst (register (MessageClass wire_type) handler args workflow_handlers) = None
     \<and> snd (register (MessageClass wire_type) handler args workflow_handlers) wire_type
         = Some (handler, args)
     \<and> register (WireType wire_type) handler' args'
           (snd (register (MessageClass wire_type) handler args workflow_handlers))
         = (Some (OtherException ''KeyError''),
            snd (register (MessageClass wire_type) handler args workflow_handlers))
     \<and> register (MessageClass wire_type) handler args workflow_handlers
         = register (WireType wire_type) handler args workflow_handlers"
  by (simp add: register_def)

theorem register_class_by_wire_type_witness:
  "snd (register (MessageClass 4) (1::nat) ''change_pin'' Map.empty) 4 = Some (1, ''change_pin'')
   \<and> register (WireType 4) (2::nat) ''other''
         (snd (register (MessageClass 4) (1::nat) ''change_pin'' Map.empty))
       = (Some (OtherException ''KeyError''),
          snd (register (MessageClass 4) (1::nat) ''change_pin'' Map.empty))"
  using register_class_by_wire_type [of Map.empty 4 "1::nat" "''change_pin''" 2 "''other''"]
  by (simp add: register_def)
subsection \<open>Context.read\<close>

text \<open>
  C3: once \<^verbatim>\<open>aopen\<close> has delivered the header of the incoming frame, \<^verbatim>\<open>read(types)\<close>
  raises \<open>UnexpectedMessageError\<close> carrying that opened reader, and decodes nothing, when
  the frame's type tag is not among \<open>types\<close>; when the tag is among them it decodes the
  message from the reader and returns it.
\<close>

theorem read_unexpected_or_decoded:
  assumes "incoming w = Header reader # rest"
  shows "(rtype reader \<notin> set types \<longrightarrow>
            Context_read ctx types w =
              Raise (UnexpectedMessageError reader) (emit (EvAopen reader) (w\<lparr>incoming := rest\<rparr>)))
       \<and> (rtype reader \<in> set types \<longrightarrow>
            (\<forall>m. rbody reader = Some m \<longrightarrow>
               Context_read ctx types w =
                 Return m (emit (EvLoad (rtype reader))
                   (emit (EvAopen reader) (w\<lparr>incoming := rest\<rparr>)))))"
  using assms by (simp add: read_header load_message_def)

theorem read_unexpected_or_decoded_witness:
  "Context_read \<lparr>iface = 0, sid = 0\<rparr> [2, 3]
       (idle\<lparr>incoming := [Header \<lparr>rtype = 27, rsize = 0, rbody = Some ButtonAck\<rparr>]\<rparr>)
     = Raise (UnexpectedMessageError \<lparr>rtype = 27, rsize = 0, rbody = Some ButtonAck\<rparr>)
         (idle\<lparr>trace := [EvAopen \<lparr>rtype = 27, rsize = 0, rbody = Some ButtonAck\<rparr>]\<rparr>)
   \<and> Context_read \<lparr>iface = 0, sid = 0\<rparr> [27]
       (idle\<lparr>incoming := [Header \<lparr>rtype = 27, rsize = 0, rbody = Some ButtonAck\<rparr>]\<rparr>)
     = Return ButtonAck
         (idle\<lparr>trace := [EvAopen \<lparr>rtype = 27, rsize = 0, rbody = Some ButtonAck\<rparr>, EvLoad 27]\<rparr>)"
  using
    read_unexpected_or_decoded [where w = "idle\<lparr>incoming :=
        [Header \<lparr>rtype = 27, rsize = 0, rbody = Some ButtonAck\<rparr>]\<rparr>"
      and reader = "\<lparr>rtype = 27, rsize = 0, rbody = Some ButtonAck\<rparr>" and rest = "[]"
      and types = "[2, 3]" and ctx = "\<lparr>iface = 0, sid = 0\<rparr>"]
    read_unexpected_or_decoded [where w = "idle\<lparr>incoming :=
        [Header \<lparr>rtype = 27, rsize = 0, rbody = Some ButtonAck\<rparr>]\<rparr>"
      and reader = "\<lparr>rtype = 27, rsize = 0, rbody = Some ButtonAck\<rparr>" and rest = "[]"
      and types = "[27]" and ctx = "\<lparr>iface = 0, sid = 0\<rparr>"]
  by (simp add: idle_def emit_def)

subsection \<open>The adapters\<close>



text \<open>
  C9: when the inner handler returns a value that is not true, such as \<open>None\<close>,
  \<^verbatim>\<open>protobuf_workflow\<close> returns in the very world the handler left: it writes neither a
  response nor a \<open>Failure\<close>.
\<close>

theorem protobuf_workflow_falsy_result_writes_nothing:
  assumes "rbody reader = Some req"
    and "handler ctx req args (emit (EvLoad (rtype reader)) w) = Return res w'"
    and "\<not> truthy res"
  shows "protobuf_workflow ctx reader handler args w = Return VNone w'"
  using assms
  by (simp add: protobuf_workflow_def bind_def load_message_def try_except_def ret_def)

theorem protobuf_workflow_falsy_result_writes_nothing_witness:
  "protobuf_workflow \<lparr>iface = 0, sid = 0\<rparr> \<lparr>rtype = 4, rsize = 2, rbody = Some (ChangePin False)\<rparr>
       (\<lambda>ctx req args. ret VNone) () idle
     = Return VNone (idle\<lparr>trace := [EvLoad 4]\<rparr>)"
  using protobuf_workflow_falsy_result_writes_nothing [where
      reader = "\<lparr>rtype = 4, rsize = 2, rbody = Some (ChangePin False)\<rparr>"
      and req = "ChangePin False" and ctx = "\<lparr>iface = 0, sid = 0\<rparr>" and args = "()" and w = idle
      and handler = "\<lambda>ctx req args. ret VNone" and res = VNone
      and w' = "idle\<lparr>trace := [EvLoad 4]\<rparr>"]
  by (simp add: idle_def emit_def ret_def)

text \<open>
  C5: once \<^verbatim>\<open>keychain_workflow\<close> has acquired the keychain, it leaves through the
  release of that keychain whichever way the inner handler leaves: when the handler
  returns, the adapter returns the same value after one release, and when the handler
  raises, the adapter raises the same exception after one release. The release is the
  last thing that happens, and it happens once more than the handler itself made it
  happen.
\<close>

theorem keychain_released_exactly_once:
  assumes "get_keychain ctx namespace w = Return k w1"
  shows "(\<forall>v w2. handler ctx req (args @ [ArgKeychain k]) w1 = Return v w2 \<longrightarrow>
            keychain_workflow ctx req namespace handler args w
              = Return v (emit (EvKeychainDel k) w2)
            \<and> count_list (trace (emit (EvKeychainDel k) w2)) (EvKeychainDel k)
              = Suc (count_list (trace w2) (EvKeychainDel k)))
       \<and> (\<forall>e w2. handler ctx req (args @ [ArgKeychain k]) w1 = Raise e w2 \<longrightarrow>
            keychain_workflow ctx req namespace handler args w
              = Raise e (emit (EvKeychainDel k) w2)
            \<and> count_list (trace (emit (EvKeychainDel k) w2)) (EvKeychainDel k)
              = Suc (count_list (trace w2) (EvKeychainDel k)))"
  using assms
  by (simp add: keychain_workflow_def bind_def try_finally_def keychain_del_def emit_def)

theorem keychain_released_exactly_once_witness:
  "keychain_workflow \<lparr>iface = 0, sid = 0\<rparr> (ChangePin False) [44, 0]
       (\<lambda>ctx req args. ret (VInt (int (length args)))) [ArgStr ''a''] (idle\<lparr>keychains := [Answers 7]\<rparr>)
     = Return (VInt 2) (idle\<lparr>trace := [EvGetKeychain [44, 0], EvKeychainDel 7]\<rparr>)
   \<and> keychain_workflow \<lparr>iface = 0, sid = 0\<rparr> (ChangePin False) [44, 0]
       (\<lambda>ctx req args. raise (Error ActionCancelled ''Cancelled'')) [] (idle\<lparr>keychains := [Answers 7]\<rparr>)
     = Raise (Error ActionCancelled ''Cancelled'')
         (idle\<lparr>trace := [EvGetKeychain [44, 0], EvKeychainDel 7]\<rparr>)"
  using
    keychain_released_exactly_once [where ctx = "\<lparr>iface = 0, sid = 0\<rparr>" and namespace = "[44, 0]"
      and w = "idle\<lparr>keychains := [Answers 7]\<rparr>" and k = 7
      and ?w1.0 = "idle\<lparr>trace := [EvGetKeychain [44, 0]]\<rparr>" and req = "ChangePin False"
      and args = "[ArgStr ''a'']" and handler = "\<lambda>ctx req args. ret (VInt (int (length args)))"]
    keychain_released_exactly_once [where ctx = "\<lparr>iface = 0, sid = 0\<rparr>" and namespace = "[44, 0]"
      and w = "idle\<lparr>keychains := [Answers 7]\<rparr>" and k = 7
      and ?w1.0 = "idle\<lparr>trace := [EvGetKeychain [44, 0]]\<rparr>" and req = "ChangePin False"
      and args = "[]" and handler = "\<lambda>ctx req args. raise (Error ActionCancelled ''Cancelled'')"]
  by (simp add: idle_def emit_def ret_def raise_def get_keychain_def)

subsection \<open>Frames nobody is registered for\<close>


subsection \<open>The session handler\<close>





text \<open>
  C2: when the running workflow raises \<open>UnexpectedMessageError\<close>, the pass of the session
  handler ends with the reader carried in the exception as the reader carried over; the
  next pass runs the handler registered for that reader's type tag (\<^verbatim>\<open>unexpected_msg\<close>
  when there is none) on that reader, starting in the world the interrupted workflow
  left but for the housekeeping of the two passes: no \<^verbatim>\<open>aopen\<close> is made and nothing is
  taken from the interface in between. A task that is still suspended inside \<^verbatim>\<open>wait\<close>
  when a frame arrives makes \<^verbatim>\<open>wait\<close> raise this exception with the reader of that frame.
\<close>

theorem unexpected_message_is_redispatched:
  "(\<forall>r' w1. find_handler wh ctx r (workflow_started w) = Raise (UnexpectedMessageError r') w1 \<longrightarrow>
       session_handler_body wh ctx (Some r) w = Continue (Some r') (workflow_closed w1)
       \<and> session_loop (Suc (Suc n)) wh ctx (Some r) w =
           session_loop (Suc n) wh ctx (Some r') (workflow_closed w1)
       \<and> session_handler_body wh ctx (Some r') (workflow_closed w1) =
           (case find_handler wh ctx r' (workflow_started (workflow_closed w1)) of
              Return v w2 \<Rightarrow> Continue None (workflow_closed w2)
            | Raise e w2 \<Rightarrow> session_handler_except (Raise e (workflow_closed w2))
            | Blocked w2 \<Rightarrow> Suspended w2)
       \<and> incoming (workflow_started (workflow_closed w1)) = incoming w1
       \<and> trace (workflow_started (workflow_closed w1)) =
           trace w1 @ [EvOnClose, EvUnimportEnd, EvUnimportBegin, EvOnStart])
   \<and> (\<forall>h a. wh (rtype rd) = Some (h, a) \<longrightarrow> find_handler wh ctx rd = h ctx rd a)
   \<and> (wh (rtype rd) = None \<longrightarrow> find_handler wh ctx rd = unexpected_msg ctx rd)
   \<and> (\<forall>v' ra rest. task v = Blocked v' \<longrightarrow> incoming v' = Header ra # rest \<longrightarrow>
        Context_wait ctx task v =
          Raise (UnexpectedMessageError ra) (emit (EvAopen ra) (v'\<lparr>incoming := rest\<rparr>)))"
proof (intro conjI allI impI)
  fix r' w1
  assume raised: "find_handler wh ctx r (workflow_started w) = Raise (UnexpectedMessageError r') w1"
  then show carried: "session_handler_body wh ctx (Some r) w = Continue (Some r') (workflow_closed w1)"
    by (simp add: session_handler_body_carried session_handler_except_def)
  then show "session_loop (Suc (Suc n)) wh ctx (Some r) w =
      session_loop (Suc n) wh ctx (Some r') (workflow_closed w1)"
    by simp
  show "session_handler_body wh ctx (Some r') (workflow_closed w1) =
      (case find_handler wh ctx r' (workflow_started (workflow_closed w1)) of
         Return v w2 \<Rightarrow> Continue None (workflow_closed w2)
       | Raise e w2 \<Rightarrow> session_handler_except (Raise e (workflow_closed w2))
       | Blocked w2 \<Rightarrow> Suspended w2)"
    by (rule session_handler_body_carried)
  show "incoming (workflow_started (workflow_closed w1)) = incoming w1"
    by (simp add: workflow_started_def workflow_closed_def emit_def)
  show "trace (workflow_started (workflow_closed w1)) =
      trace w1 @ [EvOnClose, EvUnimportEnd, EvUnimportBegin, EvOnStart]"
    by (simp add: workflow_started_def workflow_closed_def emit_def)
next
  fix h a
  assume "wh (rtype rd) = Some (h, a)"
  then show "find_handler wh ctx rd = h ctx rd a"
    by (simp add: find_handler_def)
next
  assume "wh (rtype rd) = None"
  then show "find_handler wh ctx rd = unexpected_msg ctx rd"
    by (simp add: find_handler_def)
next
  fix v' ra rest
  assume "task v = Blocked v'" and "incoming v' = Header ra # rest"
  then show "Context_wait ctx task v =
      Raise (UnexpectedMessageError ra) (emit (EvAopen ra) (v'\<lparr>incoming := rest\<rparr>))"
    by (simp add: Context_wait_def loop_spawn_def bind_def read_header)
qed

theorem unexpected_message_is_redispatched_witness:
  "Context_wait \<lparr>iface = 0, sid = 0\<rparr> (request_pin None)
       (idle\<lparr>incoming := [Header \<lparr>rtype = 1, rsize = 0, rbody = None\<rparr>]\<rparr>)
     = Raise (UnexpectedMessageError \<lparr>rtype = 1, rsize = 0, rbody = None\<rparr>)
         (idle\<lparr>trace := [EvRequestPin None, EvAopen \<lparr>rtype = 1, rsize = 0, rbody = None\<rparr>]\<rparr>)
   \<and> session_loop 2
       (Map.empty(4 \<mapsto> (\<lambda>ctx r a. Context_wait ctx (request_pin None), ()),
                  1 \<mapsto> (\<lambda>ctx r a. ret VNone, ())))
       \<lparr>iface = 0, sid = 0\<rparr> (Some \<lparr>rtype = 4, rsize = 0, rbody = None\<rparr>)
       (idle\<lparr>incoming := [Header \<lparr>rtype = 1, rsize = 0, rbody = None\<rparr>]\<rparr>)
     = Continue None
         (idle\<lparr>trace := [EvUnimportBegin, EvOnStart, EvRequestPin None,
            EvAopen \<lparr>rtype = 1, rsize = 0, rbody = None\<rparr>, EvOnClose, EvUnimportEnd,
            EvUnimportBegin, EvOnStart, EvOnClose, EvUnimportEnd]\<rparr>)"
proof -
  let ?wh = "Map.empty(4 \<mapsto> (\<lambda>ctx r a. Context_wait ctx (request_pin None), ()),
                       1 \<mapsto> (\<lambda>ctx r a. ret VNone, ())) :: (unit handler, unit) registry"
  let ?ctx = "\<lparr>iface = 0, sid = 0\<rparr>"
  let ?r1 = "\<lparr>rtype = 1, rsize = 0, rbody = None\<rparr>"
  let ?r4 = "\<lparr>rtype = 4, rsize = 0, rbody = None\<rparr>"
  let ?w = "idle\<lparr>incoming := [Header ?r1]\<rparr>"
  have interrupted: "Context_wait ?ctx (request_pin None) v =
      Raise (UnexpectedMessageError ?r1) (emit (EvAopen ?r1) (emit (EvRequestPin None) v\<lparr>incoming := []\<rparr>))"
    if "pins v = []" and "incoming v = [Header ?r1]" for v
    using that unexpected_message_is_redispatched [where ctx = ?ctx and task = "request_pin None"
        and v = v, THEN conjunct2, THEN conjunct2, THEN conjunct2, rule_format,
        of "emit (EvRequestPin None) v" ?r1 "[]"]
    by (simp add: request_pin_def emit_def)
  have raised: "find_handler ?wh ?ctx ?r4 (workflow_started ?w) =
      Raise (UnexpectedMessageError ?r1)
        (emit (EvAopen ?r1) (emit (EvRequestPin None) (workflow_started ?w)\<lparr>incoming := []\<rparr>))"
    using interrupted [of "workflow_started ?w"]
    by (simp add: find_handler_def workflow_started_def emit_def idle_def)
  have "session_loop 2 ?wh ?ctx (Some ?r4) ?w =
      session_loop 1 ?wh ?ctx (Some ?r1)
        (workflow_closed
          (emit (EvAopen ?r1) (emit (EvRequestPin None) (workflow_started ?w)\<lparr>incoming := []\<rparr>)))"
    using unexpected_message_is_redispatched [where wh = ?wh and ctx = ?ctx and r = ?r4
        and w = ?w and n = 0, THEN conjunct1, rule_format, OF raised]
    by (simp add: numeral_2_eq_2)
  also have "\<dots> = Continue None
      (idle\<lparr>trace := [EvUnimportBegin, EvOnStart, EvRequestPin None, EvAopen ?r1, EvOnClose,
         EvUnimportEnd, EvUnimportBegin, EvOnStart, EvOnClose, EvUnimportEnd]\<rparr>)"
    by (simp add: session_handler_body_carried find_handler_def ret_def workflow_started_def
        workflow_closed_def emit_def idle_def)
  finally show ?thesis
    using interrupted [of ?w]
    by (simp add: idle_def emit_def)
qed

subsection \<open>The PIN workflow\<close>

lemma store_writes_append [simp]: "store_writes (xs @ ys) = store_writes xs @ store_writes ys"
  by (simp add: store_writes_def)

lemma store_writes_Nil [simp]: "store_writes [] = []"
  by (simp add: store_writes_def)

lemma request_pin_ack_answered:
  assumes "incoming w = Header ack # rest"
    and "rtype ack = MessageType_ButtonAck E"
    and "rbody ack = Some m"
    and "pins w = Answers p # ps"
  shows "request_pin_ack E ctx (Some label) w =
     Return (VStr p)
       (w\<lparr>incoming := rest, pins := ps, trace := trace w @ prompt_events ack label\<rparr>)"
  using assms
  by (simp add: request_pin_ack_def try_except_def bind_def Context_call_def Context_write_def
      read_header load_message_def Context_wait_def loop_spawn_def request_pin_def emit_def
      prompt_events_def)

lemma request_pin_ack_outcome:
  "\<exists>tr. trace (world_of (request_pin_ack E ctx label w)) = trace w @ tr \<and> store_writes tr = []"
  by (auto simp: request_pin_ack_def try_except_def bind_def Context_call_def Context_write_def
      Context_read_def aopen_def load_message_def Context_wait_def loop_spawn_def
      request_pin_def emit_def raise_def ret_def store_writes_def
      split: result.splits list.splits arrival.splits answer.splits option.splits exc.splits)

lemma request_pin_ack_Return:
  "request_pin_ack E ctx label w = Return v w' \<Longrightarrow> \<exists>p. v = VStr p \<and> pins w = Answers p # pins w'"
  by (auto simp: request_pin_ack_def try_except_def bind_def Context_call_def Context_write_def
      Context_read_def aopen_def load_message_def Context_wait_def loop_spawn_def
      request_pin_def emit_def raise_def ret_def
      split: result.splits list.splits arrival.splits answer.splits option.splits exc.splits
        if_splits)

lemma request_pin_confirm_outcome:
  "\<exists>tr. trace (world_of (request_pin_confirm E ctx w)) = trace w @ tr \<and> store_writes tr = []"
proof (induction E ctx w rule: request_pin_confirm.induct)
  case (1 E ctx w)
  let ?first = "request_pin_ack E ctx (Some ''Enter new PIN'') w"
  obtain tr1 where t1: "trace (world_of ?first) = trace w @ tr1" "store_writes tr1 = []"
    using request_pin_ack_outcome by blast
  show ?case
  proof (cases ?first)
    case (Return pin1 w1)
    let ?second = "request_pin_ack E ctx (Some ''Re-enter new PIN'') w1"
    obtain tr2 where t2: "trace (world_of ?second) = trace w1 @ tr2" "store_writes tr2 = []"
      using request_pin_ack_outcome by blast
    show ?thesis
    proof (cases ?second)
      case second: (Return pin2 w2)
      show ?thesis
      proof (cases "pin1 = pin2")
        case True
        have "request_pin_confirm E ctx w = Return pin1 w2"
          using Return second True by (subst request_pin_confirm.simps) simp
        moreover have "trace w2 = trace w @ (tr1 @ tr2)"
          using t1 t2 Return second by simp
        ultimately show ?thesis
          using t1 t2 by (metis store_writes_append append_Nil world_of.simps(1))
      next
        case False
        have mismatch: "pin_mismatch w2 = Return () (emit EvPinMismatch w2)"
          by (simp add: pin_mismatch_def)
        obtain tr3 where t3:
          "trace (world_of (request_pin_confirm E ctx (emit EvPinMismatch w2))) =
             trace (emit EvPinMismatch w2) @ tr3" "store_writes tr3 = []"
          using "1.IH" [OF Return second False mismatch] by blast
        have "request_pin_confirm E ctx w = request_pin_confirm E ctx (emit EvPinMismatch w2)"
          using Return second False by (subst request_pin_confirm.simps) (simp add: pin_mismatch_def)
        moreover have "trace (emit EvPinMismatch w2) @ tr3 =
            trace w @ (tr1 @ tr2 @ EvPinMismatch # tr3)"
          using t1 t2 Return second by (simp add: emit_def)
        moreover have "store_writes (tr1 @ tr2 @ EvPinMismatch # tr3) = []"
          using t1 t2 t3 by (simp add: store_writes_def)
        ultimately show ?thesis
          using t3 by metis
      qed
    next
      case (Raise e w2)
      have "request_pin_confirm E ctx w = Raise e w2"
        using Return Raise by (subst request_pin_confirm.simps) simp
      moreover have "trace w2 = trace w @ (tr1 @ tr2)"
        using t1 t2 Return Raise by simp
      ultimately show ?thesis
        using t1 t2 by (metis store_writes_append append_Nil world_of.simps(2))
    next
      case (Blocked w2)
      have "request_pin_confirm E ctx w = Blocked w2"
        using Return Blocked by (subst request_pin_confirm.simps) simp
      moreover have "trace w2 = trace w @ (tr1 @ tr2)"
        using t1 t2 Return Blocked by simp
      ultimately show ?thesis
        using t1 t2 by (metis store_writes_append append_Nil world_of.simps(3))
    qed
  next
    case (Raise e w1)
    have "request_pin_confirm E ctx w = Raise e w1"
      using Raise by (subst request_pin_confirm.simps) simp
    with t1 Raise show ?thesis
      by auto
  next
    case (Blocked w1)
    have "request_pin_confirm E ctx w = Blocked w1"
      using Blocked by (subst request_pin_confirm.simps) simp
    with t1 Blocked show ?thesis
      by auto
  qed
qed

lemma request_pin_confirm_Return:
  "request_pin_confirm E ctx w = Return v w' \<Longrightarrow>
   \<exists>p used. v = VStr p \<and> pins w = used @ [Answers p, Answers p] @ pins w'"
proof (induction E ctx w rule: request_pin_confirm.induct)
  case (1 E ctx w)
  let ?first = "request_pin_ack E ctx (Some ''Enter new PIN'') w"
  from "1.prems" obtain pin1 w1 where first: "?first = Return pin1 w1"
    by (subst (asm) request_pin_confirm.simps) (auto split: result.splits)
  let ?second = "request_pin_ack E ctx (Some ''Re-enter new PIN'') w1"
  from "1.prems" first obtain pin2 w2 where second: "?second = Return pin2 w2"
    by (subst (asm) request_pin_confirm.simps) (auto split: result.splits)
  obtain p1 where p1: "pin1 = VStr p1" "pins w = Answers p1 # pins w1"
    using request_pin_ack_Return [OF first] by blast
  obtain p2 where p2: "pin2 = VStr p2" "pins w1 = Answers p2 # pins w2"
    using request_pin_ack_Return [OF second] by blast
  show ?case
  proof (cases "pin1 = pin2")
    case True
    have "request_pin_confirm E ctx w = Return pin1 w2"
      using first second True by (subst request_pin_confirm.simps) simp
    with "1.prems" have "v = pin1" "w' = w2"
      by simp_all
    with p1 p2 True have "v = VStr p1 \<and> pins w = [] @ [Answers p1, Answers p1] @ pins w'"
      by simp
    then show ?thesis
      by blast
  next
    case False
    have mismatch: "pin_mismatch w2 = Return () (emit EvPinMismatch w2)"
      by (simp add: pin_mismatch_def)
    have "request_pin_confirm E ctx w = request_pin_confirm E ctx (emit EvPinMismatch w2)"
      using first second False by (subst request_pin_confirm.simps) (simp add: pin_mismatch_def)
    with "1.prems" have "request_pin_confirm E ctx (emit EvPinMismatch w2) = Return v w'"
      by simp
    from "1.IH" [OF first second False mismatch this]
    obtain p used where "v = VStr p" "pins (emit EvPinMismatch w2) = used @ [Answers p, Answers p] @ pins w'"
      by blast
    with p1 p2 have "v = VStr p \<and> pins w = (Answers p1 # Answers p2 # used) @ [Answers p, Answers p] @ pins w'"
      by (simp add: emit_def)
    then show ?thesis
      by blast
  qed
qed

lemma request_pin_confirm_round:
  assumes "rtype ack = MessageType_ButtonAck E"
    and "rbody ack = Some m"
    and "incoming w = Header ack # Header ack # rest"
    and "pins w = Answers a # Answers b # ps"
  shows "request_pin_confirm E ctx w =
     (if a = b
      then Return (VStr a) (w\<lparr>incoming := rest, pins := ps, trace := trace w @ round_events ack\<rparr>)
      else request_pin_confirm E ctx
        (w\<lparr>incoming := rest, pins := ps,
            trace := trace w @ round_events ack @ [EvPinMismatch]\<rparr>))"
proof -
  let ?w1 = "w\<lparr>incoming := Header ack # rest, pins := Answers b # ps,
      trace := trace w @ prompt_events ack ''Enter new PIN''\<rparr>"
  have first: "request_pin_ack E ctx (Some ''Enter new PIN'') w = Return (VStr a) ?w1"
    using assms by (simp add: request_pin_ack_answered)
  have second: "request_pin_ack E ctx (Some ''Re-enter new PIN'') ?w1 =
      Return (VStr b) (w\<lparr>incoming := rest, pins := ps, trace := trace w @ round_events ack\<rparr>)"
    using assms by (simp add: request_pin_ack_answered round_events_def)
  show ?thesis
    using first second
    by (subst request_pin_confirm.simps) (simp add: pin_mismatch_def emit_def)
qed

lemma request_pin_confirm_rounds:
  assumes "rtype ack = MessageType_ButtonAck E"
    and "rbody ack = Some m"
  shows "\<forall>(a, b) \<in> set rounds. a \<noteq> b \<Longrightarrow>
     pins w = concat (map (\<lambda>(a, b). [Answers a, Answers b]) rounds) @ [Answers p, Answers p] @ ps \<Longrightarrow>
     incoming w = replicate (2 * length rounds + 2) (Header ack) @ rest \<Longrightarrow>
     request_pin_confirm E ctx w =
       Return (VStr p)
         (w\<lparr>incoming := rest, pins := ps,
             trace := trace w @ concat (map (\<lambda>r. round_events ack @ [EvPinMismatch]) rounds)
               @ round_events ack\<rparr>)"
proof (induction rounds arbitrary: w)
  case Nil
  then show ?case
    using request_pin_confirm_round [OF assms, of w rest p p ps ctx]
    by (simp add: numeral_2_eq_2)
next
  case (Cons r rounds)
  obtain a b where r: "r = (a, b)"
    by (cases r)
  let ?w' = "w\<lparr>incoming := replicate (2 * length rounds + 2) (Header ack) @ rest,
      pins := concat (map (\<lambda>(a, b). [Answers a, Answers b]) rounds) @ [Answers p, Answers p] @ ps,
      trace := trace w @ round_events ack @ [EvPinMismatch]\<rparr>"
  have "a \<noteq> b"
    using Cons.prems(1) r by simp
  then have "request_pin_confirm E ctx w = request_pin_confirm E ctx ?w'"
    using request_pin_confirm_round [OF assms, of w
        "replicate (2 * length rounds + 2) (Header ack) @ rest" a b
        "concat (map (\<lambda>(a, b). [Answers a, Answers b]) rounds) @ [Answers p, Answers p] @ ps" ctx]
      Cons.prems r
    by (simp add: numeral_2_eq_2)
  also have "\<dots> = Return (VStr p)
      (?w'\<lparr>incoming := rest, pins := ps,
          trace := trace ?w' @ concat (map (\<lambda>r. round_events ack @ [EvPinMismatch]) rounds)
            @ round_events ack\<rparr>)"
    using Cons.prems(1) by (intro Cons.IH) simp_all
  finally show ?case
    by simp
qed

lemma require_confirm_outcome:
  "require_confirm ctx text w =
     (case confirms w of
        [] \<Rightarrow> Blocked (emit (EvRequireConfirm text) w)
      | Answers u # cs \<Rightarrow> Return () (emit (EvRequireConfirm text) (w\<lparr>confirms := cs\<rparr>))
      | Throws e # cs \<Rightarrow> Raise e (emit (EvRequireConfirm text) (w\<lparr>confirms := cs\<rparr>))
      | Silent # cs \<Rightarrow> Blocked (emit (EvRequireConfirm text) (w\<lparr>confirms := cs\<rparr>)))"
  by (simp add: require_confirm_def split: list.splits answer.splits)

lemma change_pin_set_new:
  assumes "\<not> has_pin_flag w" and "\<not> remove msg"
  shows "change_pin E ctx msg w =
     (case require_confirm ctx set_new_pin_text w of
        Return u w1 \<Rightarrow>
          (case request_pin_confirm E ctx w1 of
             Return newpin w2 \<Rightarrow>
               (if change_pin_oracle w2 (pin_to_int E (VStr [])) (pin_to_int E newpin)
                then Return (VMsg (Success (if truthy newpin then ''PIN changed'' else ''PIN removed'')))
                       (emit (EvChangePin (pin_to_int E (VStr [])) (pin_to_int E newpin)) w2)
                else Raise (wire_PinInvalid ''PIN invalid'')
                       (emit (EvChangePin (pin_to_int E (VStr [])) (pin_to_int E newpin)) w2))
           | Raise e w2 \<Rightarrow> Raise e w2
           | Blocked w2 \<Rightarrow> Blocked w2)
      | Raise e w1 \<Rightarrow> Raise e w1
      | Blocked w1 \<Rightarrow> Blocked w1)"
proof -
  have kept: "has_pin_flag w1 = has_pin_flag w" if "require_confirm ctx lines w = Return u w1"
    for lines u w1
    using that
    by (auto simp: require_confirm_outcome emit_def split: list.splits answer.splits)
  show ?thesis
    using assms
    by (auto simp: change_pin_def require_confirm_change_pin_def bind_def config_has_pin_def
        config_change_pin_def ret_def raise_def set_new_pin_text_def dest: kept
        split: result.splits)
qed

text \<open>
  C8, amended: on a device with no stored PIN and a \<open>ChangePin\<close> request without the remove
  flag, the first thing the workflow does is to require the user's confirmation, and
  without it nothing else happens. The credential store is written
  (\<^verbatim>\<open>config.change_pin\<close>) only after two consecutive PIN entries were equal, it is written
  at most once, as the last thing, and when that write succeeds the workflow returns a
  \<open>Success\<close> whose message is "PIN changed" when the PIN entered is not empty and
  "PIN removed" when it is empty. After any number of rounds of two different entries,
  each followed by the mismatch screen and a new pair of prompts with no write to the
  store, and one round of two equal non-empty entries, the store is written once and the
  workflow returns \<open>Success\<close> with the message "PIN changed".
\<close>

theorem change_pin_sets_new_pin:
  assumes "\<not> has_pin_flag w" and "\<not> remove msg"
  shows "(\<forall>e cs. confirms w = Throws e # cs \<longrightarrow>
            change_pin E ctx msg w =
              Raise e (emit (EvRequireConfirm set_new_pin_text) (w\<lparr>confirms := cs\<rparr>)))
       \<and> (\<exists>tr. trace (world_of (change_pin E ctx msg w)) =
                 trace w @ EvRequireConfirm set_new_pin_text # tr)
       \<and> (\<forall>res w'. change_pin E ctx msg w = Return res w' \<longrightarrow>
            (\<exists>p used tr.
               pins w = used @ [Answers p, Answers p] @ pins w'
               \<and> trace w' = trace w @ EvRequireConfirm set_new_pin_text # tr
                    @ [EvChangePin (pin_to_int E (VStr [])) (pin_to_int E (VStr p))]
               \<and> store_writes tr = []
               \<and> res = VMsg (Success (if p = [] then ''PIN removed'' else ''PIN changed''))))
       \<and> (store_writes (trace (world_of (change_pin E ctx msg w))) \<noteq> store_writes (trace w) \<longrightarrow>
            (\<exists>p used ps. pins w = used @ [Answers p, Answers p] @ ps))
       \<and> (\<forall>ack m rounds p ps cs rest.
            rtype ack = MessageType_ButtonAck E \<longrightarrow> rbody ack = Some m \<longrightarrow>
            (\<forall>(a, b) \<in> set rounds. a \<noteq> b) \<longrightarrow> p \<noteq> [] \<longrightarrow>
            confirms w = Answers () # cs \<longrightarrow>
            pins w = concat (map (\<lambda>(a, b). [Answers a, Answers b]) rounds)
                       @ [Answers p, Answers p] @ ps \<longrightarrow>
            incoming w = replicate (2 * length rounds + 2) (Header ack) @ rest \<longrightarrow>
            change_pin_oracle w (pin_to_int E (VStr [])) (pin_to_int E (VStr p)) \<longrightarrow>
            change_pin E ctx msg w =
              Return (VMsg (Success ''PIN changed''))
                (w\<lparr>incoming := rest, confirms := cs, pins := ps,
                    trace := trace w @ EvRequireConfirm set_new_pin_text
                      # concat (map (\<lambda>r. round_events ack @ [EvPinMismatch]) rounds)
                      @ round_events ack
                      @ [EvChangePin (pin_to_int E (VStr [])) (pin_to_int E (VStr p))]\<rparr>))"
proof (intro conjI allI impI)
  fix e cs
  assume "confirms w = Throws e # cs"
  then show "change_pin E ctx msg w =
      Raise e (emit (EvRequireConfirm set_new_pin_text) (w\<lparr>confirms := cs\<rparr>))"
    by (simp add: change_pin_set_new [OF assms] require_confirm_outcome)
next
  let ?confirm = "require_confirm ctx set_new_pin_text w"
  have confirmed: "trace (world_of ?confirm) = trace w @ [EvRequireConfirm set_new_pin_text]
      \<and> pins (world_of ?confirm) = pins w"
    by (simp add: require_confirm_outcome emit_def split: list.splits answer.splits)
  have shape: "(\<exists>tr. trace (world_of (change_pin E ctx msg w)) =
        trace w @ EvRequireConfirm set_new_pin_text # tr)
    \<and> (\<forall>res w'. change_pin E ctx msg w = Return res w' \<longrightarrow>
         (\<exists>p used tr.
            pins w = used @ [Answers p, Answers p] @ pins w'
            \<and> trace w' = trace w @ EvRequireConfirm set_new_pin_text # tr
                 @ [EvChangePin (pin_to_int E (VStr [])) (pin_to_int E (VStr p))]
            \<and> store_writes tr = []
            \<and> res = VMsg (Success (if p = [] then ''PIN removed'' else ''PIN changed''))))
    \<and> (store_writes (trace (world_of (change_pin E ctx msg w))) \<noteq> store_writes (trace w) \<longrightarrow>
         (\<exists>p used ps. pins w = used @ [Answers p, Answers p] @ ps))"
  proof (cases ?confirm)
    case (Return u w1)
    with confirmed have w1: "trace w1 = trace w @ [EvRequireConfirm set_new_pin_text]"
      "pins w1 = pins w"
      by simp_all
    obtain tr where tr: "trace (world_of (request_pin_confirm E ctx w1)) = trace w1 @ tr"
      "store_writes tr = []"
      using request_pin_confirm_outcome by blast
    show ?thesis
    proof (cases "request_pin_confirm E ctx w1")
      case entered: (Return newpin w2)
      obtain p used where p: "newpin = VStr p" "pins w1 = used @ [Answers p, Answers p] @ pins w2"
        using request_pin_confirm_Return [OF entered] by blast
      let ?wr = "EvChangePin (pin_to_int E (VStr [])) (pin_to_int E (VStr p))"
      let ?w3 = "emit ?wr w2"
      have w2: "trace w2 = trace w @ EvRequireConfirm set_new_pin_text # tr"
        using tr entered w1 by simp
      have entries: "pins w = used @ [Answers p, Answers p] @ pins ?w3"
        using p w1 by (simp add: emit_def)
      have written: "trace ?w3 = trace w @ EvRequireConfirm set_new_pin_text # tr @ [?wr]"
        using w2 by (simp add: emit_def)
      have outcome: "change_pin E ctx msg w =
          (if change_pin_oracle w2 (pin_to_int E (VStr [])) (pin_to_int E (VStr p))
           then Return (VMsg (Success (if p = [] then ''PIN removed'' else ''PIN changed''))) ?w3
           else Raise (wire_PinInvalid ''PIN invalid'') ?w3)"
        using Return entered p by (simp add: change_pin_set_new [OF assms])
      then have left: "world_of (change_pin E ctx msg w) = ?w3"
        by simp
      have first: "\<exists>tr'. trace (world_of (change_pin E ctx msg w)) =
          trace w @ EvRequireConfirm set_new_pin_text # tr'"
        using left written by (intro exI [of _ "tr @ [?wr]"]) simp
      have second: "\<exists>p used tr.
          pins w = used @ [Answers p, Answers p] @ pins w'
          \<and> trace w' = trace w @ EvRequireConfirm set_new_pin_text # tr
               @ [EvChangePin (pin_to_int E (VStr [])) (pin_to_int E (VStr p))]
          \<and> store_writes tr = []
          \<and> res = VMsg (Success (if p = [] then ''PIN removed'' else ''PIN changed''))"
        if returned: "change_pin E ctx msg w = Return res w'" for res w'
      proof -
        from returned outcome have "w' = ?w3"
          and "res = VMsg (Success (if p = [] then ''PIN removed'' else ''PIN changed''))"
          by (simp_all split: if_splits)
        with entries written tr(2) show ?thesis
          by (intro exI [of _ p] exI [of _ used] exI [of _ tr]) simp
      qed
      have third: "\<exists>p used ps. pins w = used @ [Answers p, Answers p] @ ps"
        using entries by (intro exI [of _ p] exI [of _ used] exI [of _ "pins ?w3"])
      from first second third show ?thesis
        by blast
    next
      case failed: (Raise e w2)
      then have "change_pin E ctx msg w = Raise e w2"
        using Return by (simp add: change_pin_set_new [OF assms])
      moreover have "trace w2 = trace w @ EvRequireConfirm set_new_pin_text # tr"
        using tr failed w1 by simp
      ultimately show ?thesis
        using tr(2) by (simp add: store_writes_def)
    next
      case waiting: (Blocked w2)
      then have "change_pin E ctx msg w = Blocked w2"
        using Return by (simp add: change_pin_set_new [OF assms])
      moreover have "trace w2 = trace w @ EvRequireConfirm set_new_pin_text # tr"
        using tr waiting w1 by simp
      ultimately show ?thesis
        using tr(2) by (simp add: store_writes_def)
    qed
  next
    case (Raise e w1)
    then have "change_pin E ctx msg w = Raise e w1"
      by (simp add: change_pin_set_new [OF assms])
    with confirmed Raise show ?thesis
      by (simp add: store_writes_def)
  next
    case (Blocked w1)
    then have "change_pin E ctx msg w = Blocked w1"
      by (simp add: change_pin_set_new [OF assms])
    with confirmed Blocked show ?thesis
      by (simp add: store_writes_def)
  qed
  from shape show "\<exists>tr. trace (world_of (change_pin E ctx msg w)) =
      trace w @ EvRequireConfirm set_new_pin_text # tr"
    by blast
  {
    fix res w'
    assume "change_pin E ctx msg w = Return res w'"
    with shape show "\<exists>p used tr.
        pins w = used @ [Answers p, Answers p] @ pins w'
        \<and> trace w' = trace w @ EvRequireConfirm set_new_pin_text # tr
             @ [EvChangePin (pin_to_int E (VStr [])) (pin_to_int E (VStr p))]
        \<and> store_writes tr = []
        \<and> res = VMsg (Success (if p = [] then ''PIN removed'' else ''PIN changed''))"
      by blast
  }
  {
    assume "store_writes (trace (world_of (change_pin E ctx msg w))) \<noteq> store_writes (trace w)"
    with shape show "\<exists>p used ps. pins w = used @ [Answers p, Answers p] @ ps"
      by blast
  }
next
  fix ack m rounds p ps cs rest
  assume ack: "rtype ack = MessageType_ButtonAck E" "rbody ack = Some m"
    and rounds: "\<forall>(a, b) \<in> set rounds. a \<noteq> b"
    and p: "p \<noteq> []"
    and confirmed: "confirms w = Answers () # cs"
    and entries: "pins w = concat (map (\<lambda>(a, b). [Answers a, Answers b]) rounds)
        @ [Answers p, Answers p] @ ps"
    and frames: "incoming w = replicate (2 * length rounds + 2) (Header ack) @ rest"
    and stored: "change_pin_oracle w (pin_to_int E (VStr [])) (pin_to_int E (VStr p))"
  let ?w1 = "emit (EvRequireConfirm set_new_pin_text) (w\<lparr>confirms := cs\<rparr>)"
  have "request_pin_confirm E ctx ?w1 =
      Return (VStr p)
        (?w1\<lparr>incoming := rest, pins := ps,
            trace := trace ?w1 @ concat (map (\<lambda>r. round_events ack @ [EvPinMismatch]) rounds)
              @ round_events ack\<rparr>)"
    using rounds entries frames
    by (intro request_pin_confirm_rounds [OF ack]) (simp_all add: emit_def)
  then show "change_pin E ctx msg w =
      Return (VMsg (Success ''PIN changed''))
        (w\<lparr>incoming := rest, confirms := cs, pins := ps,
            trace := trace w @ EvRequireConfirm set_new_pin_text
              # concat (map (\<lambda>r. round_events ack @ [EvPinMismatch]) rounds)
              @ round_events ack
              @ [EvChangePin (pin_to_int E (VStr [])) (pin_to_int E (VStr p))]\<rparr>)"
    using confirmed p stored
    by (simp add: change_pin_set_new [OF assms] require_confirm_outcome emit_def)
qed

theorem change_pin_sets_new_pin_witness:
  "change_pin example_env \<lparr>iface = 0, sid = 0\<rparr> (ChangePin False)
       (idle\<lparr>incoming := replicate 4 (Header \<lparr>rtype = 27, rsize = 0, rbody = Some ButtonAck\<rparr>),
             confirms := [Answers ()],
             pins := [Answers ''1234'', Answers ''1243'', Answers ''1234'', Answers ''1234'']\<rparr>)
     = Return (VMsg (Success ''PIN changed''))
         (idle\<lparr>trace :=
            [EvRequireConfirm [''Remove PIN'', ''Do you really want to'', ''set new PIN?''],
             EvWrite (ButtonRequest Other),
             EvAopen \<lparr>rtype = 27, rsize = 0, rbody = Some ButtonAck\<rparr>, EvLoad 27,
             EvRequestPin (Some ''Enter new PIN''),
             EvWrite (ButtonRequest Other),
             EvAopen \<lparr>rtype = 27, rsize = 0, rbody = Some ButtonAck\<rparr>, EvLoad 27,
             EvRequestPin (Some ''Re-enter new PIN''),
             EvPinMismatch,
             EvWrite (ButtonRequest Other),
             EvAopen \<lparr>rtype = 27, rsize = 0, rbody = Some ButtonAck\<rparr>, EvLoad 27,
             EvRequestPin (Some ''Enter new PIN''),
             EvWrite (ButtonRequest Other),
             EvAopen \<lparr>rtype = 27, rsize = 0, rbody = Some ButtonAck\<rparr>, EvLoad 27,
             EvRequestPin (Some ''Re-enter new PIN''),
             EvChangePin 1 11234]\<rparr>)"
proof -
  let ?ack = "\<lparr>rtype = 27, rsize = 0, rbody = Some ButtonAck\<rparr>"
  let ?w = "idle\<lparr>incoming := replicate 4 (Header ?ack), confirms := [Answers ()],
    pins := [Answers ''1234'', Answers ''1243'', Answers ''1234'', Answers ''1234'']\<rparr>"
  have no_pin: "\<not> has_pin_flag ?w" and set: "\<not> remove (ChangePin False)"
    by (simp_all add: idle_def)
  have empty: "pin_to_int example_env (VStr []) = 1"
    and entered: "pin_to_int example_env (VStr ''1234'') = 11234"
    by (simp_all add: example_env_def)
  show ?thesis
    using change_pin_sets_new_pin [OF no_pin set, where E = example_env
        and ctx = "\<lparr>iface = 0, sid = 0\<rparr>", THEN conjunct2, THEN conjunct2, THEN conjunct2,
        THEN conjunct2, rule_format, of ?ack ButtonAck "[(''1234'', ''1243'')]" "''1234''"
        "[]" "[]" "[]"]
    by (simp add: idle_def empty entered example_env_def round_events_def prompt_events_def
        set_new_pin_text_def numeral_eq_Suc)
qed

text \<open>
  The claim as the spec states it promises "PIN changed" whenever the two entries match
  and the write succeeds. With the empty PIN entered twice the store is written and the
  workflow answers "PIN removed".
\<close>

theorem change_pin_empty_entries_counterexample:
  "\<not> has_pin_flag
       (idle\<lparr>incoming := replicate 2 (Header \<lparr>rtype = 27, rsize = 0, rbody = Some ButtonAck\<rparr>),
             confirms := [Answers ()], pins := [Answers [], Answers []]\<rparr>)
   \<and> \<not> remove (ChangePin False)
   \<and> change_pin example_env \<lparr>iface = 0, sid = 0\<rparr> (ChangePin False)
       (idle\<lparr>incoming := replicate 2 (Header \<lparr>rtype = 27, rsize = 0, rbody = Some ButtonAck\<rparr>),
             confirms := [Answers ()], pins := [Answers [], Answers []]\<rparr>)
     = Return (VMsg (Success ''PIN removed''))
         (idle\<lparr>trace :=
            [EvRequireConfirm [''Remove PIN'', ''Do you really want to'', ''set new PIN?''],
             EvWrite (ButtonRequest Other),
             EvAopen \<lparr>rtype = 27, rsize = 0, rbody = Some ButtonAck\<rparr>, EvLoad 27,
             EvRequestPin (Some ''Enter new PIN''),
             EvWrite (ButtonRequest Other),
             EvAopen \<lparr>rtype = 27, rsize = 0, rbody = Some ButtonAck\<rparr>, EvLoad 27,
             EvRequestPin (Some ''Re-enter new PIN''),
             EvChangePin 1 1]\<rparr>)
   \<and> Success ''PIN removed'' \<noteq> Success ''PIN changed''"
proof -
  let ?ack = "\<lparr>rtype = 27, rsize = 0, rbody = Some ButtonAck\<rparr>"
  let ?w = "idle\<lparr>incoming := replicate 2 (Header ?ack), confirms := [Answers ()],
    pins := [Answers [], Answers []]\<rparr>"
  let ?w1 = "emit (EvRequireConfirm set_new_pin_text) (?w\<lparr>confirms := []\<rparr>)"
  have no_pin: "\<not> has_pin_flag ?w" and set: "\<not> remove (ChangePin False)"
    by (simp_all add: idle_def)
  have empty: "pin_to_int example_env (VStr []) = 1"
    by (simp add: example_env_def)
  let ?w2 = "?w1\<lparr>incoming := [], pins := [], trace := trace ?w1 @ round_events ?ack\<rparr>"
  have entered: "request_pin_confirm example_env \<lparr>iface = 0, sid = 0\<rparr> ?w1 = Return (VStr []) ?w2"
    using request_pin_confirm_round [where E = example_env and ack = ?ack and m = ButtonAck
        and w = ?w1 and rest = "[]" and a = "[]" and b = "[]" and ps = "[]"]
    by (simp add: example_env_def emit_def idle_def numeral_eq_Suc)
  have confirmed: "require_confirm \<lparr>iface = 0, sid = 0\<rparr> set_new_pin_text ?w = Return () ?w1"
    by (simp add: require_confirm_outcome idle_def)
  have stored: "change_pin_oracle ?w2 1 1"
    by (simp add: idle_def emit_def)
  have "change_pin example_env \<lparr>iface = 0, sid = 0\<rparr> (ChangePin False) ?w =
      Return (VMsg (Success ''PIN removed'')) (emit (EvChangePin 1 1) ?w2)"
    unfolding change_pin_set_new [OF no_pin set] confirmed result.case entered empty
    using stored by simp
  then show ?thesis
    by (simp add: idle_def emit_def round_events_def prompt_events_def set_new_pin_text_def)
qed

end
